theory Spec2Isabelle
  imports Complex_Main "HOL-Library.Finite_Map"
begin

section \<open>Values, payloads and exceptions\<close>

text \<open>
  The claim framework of \<^verbatim>\<open>recipe/session/claim_base_classes/primitive_claim.py\<close>
  works on a session payload: a Python dict from claim keys to JSON values.

  \<^verbatim>\<open>JSONPrimitive\<close> is string, number, boolean or null. Numbers are Python's unbounded
  integers here (the timestamps of \<^verbatim>\<open>get_timestamp_ms\<close> and \<^verbatim>\<open>max_age_in_sec: int\<close>);
  a payload holding a float is outside this model.
\<close>

datatype json_primitive = PNone | PBool bool | PInt int | PStr string

text \<open>Any JSON value: a primitive, an array, or an object (a dict with string keys).\<close>

datatype pyval =
    Prim json_primitive
  | PList "pyval list"
  | PDict "(string, pyval) fmap"

text \<open>\<^verbatim>\<open>JSONObject = Dict[str, Any]\<close>; \<^verbatim>\<open>user_context: Union[Dict[str, Any], None]\<close>.\<close>

type_synonym json_object = "(string, pyval) fmap"
type_synonym user_context = "json_object option"

text \<open>The exceptions the modelled code can raise.\<close>

datatype exn = AttributeError | KeyError | TypeError | AssertionError

text \<open>
  Payloads are mutable objects: \<^verbatim>\<open>payload[self.key] = ...\<close> changes the caller's dict.
  A payload argument is therefore a reference, and the store gives the dict each
  reference currently holds.
\<close>

type_synonym ref = nat
type_synonym heap = "ref \<Rightarrow> json_object"

section \<open>The Python operations the code uses\<close>

text \<open>\<^verbatim>\<open>d.get(k, default)\<close> on a dict.\<close>

definition dict_get :: "json_object \<Rightarrow> string \<Rightarrow> pyval \<Rightarrow> pyval" where
  "dict_get d k dflt = (case fmlookup d k of None \<Rightarrow> dflt | Some v \<Rightarrow> v)"

text \<open>
  \<^verbatim>\<open>x.get(k)\<close> on an arbitrary value: only a dict has the method; on \<^verbatim>\<open>None\<close>, a
  number, a string or a list the attribute lookup raises \<^verbatim>\<open>AttributeError\<close>.
\<close>

fun py_get :: "pyval \<Rightarrow> string \<Rightarrow> exn + pyval" where
  "py_get (PDict d) k = Inr (dict_get d k (Prim PNone))"
| "py_get (Prim p) k = Inl AttributeError"
| "py_get (PList xs) k = Inl AttributeError"


text \<open>Truth value of an object, as \<^verbatim>\<open>or\<close> tests it.\<close>

fun truthy :: "pyval \<Rightarrow> bool" where
  "truthy (Prim PNone) = False"
| "truthy (Prim (PBool b)) = b"
| "truthy (Prim (PInt i)) = (i \<noteq> 0)"
| "truthy (Prim (PStr s)) = (s \<noteq> [])"
| "truthy (PList xs) = (xs \<noteq> [])"
| "truthy (PDict d) = (d \<noteq> fmempty)"

text \<open>\<^verbatim>\<open>x or y\<close>: \<^verbatim>\<open>x\<close> when it is true, else \<^verbatim>\<open>y\<close>.\<close>

definition py_or :: "pyval \<Rightarrow> pyval \<Rightarrow> pyval" where
  "py_or x y = (if truthy x then x else y)"

text \<open>\<^verbatim>\<open>bool\<close> is a subclass of \<^verbatim>\<open>int\<close>: \<^verbatim>\<open>True\<close> is 1 and \<^verbatim>\<open>False\<close> is 0.\<close>

definition int_of_bool :: "bool \<Rightarrow> int" where
  "int_of_bool b = (if b then 1 else 0)"

text \<open>\<^verbatim>\<open>a - x\<close> for an int \<^verbatim>\<open>a\<close>: defined for ints and bools, \<^verbatim>\<open>TypeError\<close> otherwise.\<close>

fun py_rsub :: "int \<Rightarrow> pyval \<Rightarrow> exn + int" where
  "py_rsub a (Prim (PInt b)) = Inr (a - b)"
| "py_rsub a (Prim (PBool b)) = Inr (a - int_of_bool b)"
| "py_rsub a (Prim PNone) = Inl TypeError"
| "py_rsub a (Prim (PStr s)) = Inl TypeError"
| "py_rsub a (PList xs) = Inl TypeError"
| "py_rsub a (PDict d) = Inl TypeError"


text \<open>
  \<^verbatim>\<open>a == b\<close> on primitives. Ints and bools compare as numbers (\<^verbatim>\<open>True == 1\<close>),
  strings with strings, \<^verbatim>\<open>None\<close> with \<^verbatim>\<open>None\<close>; values of different kinds are
  unequal.
\<close>

fun prim_eq :: "json_primitive \<Rightarrow> json_primitive \<Rightarrow> bool" where
  "prim_eq PNone PNone = True"
| "prim_eq (PBool a) (PBool b) = (a = b)"
| "prim_eq (PBool a) (PInt b) = (int_of_bool a = b)"
| "prim_eq (PInt a) (PBool b) = (a = int_of_bool b)"
| "prim_eq (PInt a) (PInt b) = (a = b)"
| "prim_eq (PStr a) (PStr b) = (a = b)"
| "prim_eq _ _ = False"

text \<open>\<^verbatim>\<open>x == p\<close> for a primitive \<^verbatim>\<open>p\<close>: a list or a dict equals no primitive.\<close>

fun py_eq :: "pyval \<Rightarrow> json_primitive \<Rightarrow> bool" where
  "py_eq (Prim a) b = prim_eq a b"
| "py_eq (PList xs) b = False"
| "py_eq (PDict d) b = False"

section \<open>PrimitiveClaim\<close>

text \<open>
  The methods of \<^verbatim>\<open>PrimitiveClaim\<close>; \<open>k\<close> is \<^verbatim>\<open>self.key\<close>. The clock
  \<^verbatim>\<open>get_timestamp_ms\<close> lives in \<^verbatim>\<open>supertokens_python.utils\<close>, which is not among the
  sources: \<open>now\<close> is the value its one call in the body returns. A constant
  name cannot end in an underscore, so \<^verbatim>\<open>add_to_payload_\<close> and
  \<^verbatim>\<open>remove_from_payload_by_merge_\<close> lose theirs.
\<close>

text \<open>\<^verbatim>\<open>payload[self.key] = {"v": value, "t": get_timestamp_ms()}; return payload\<close>\<close>

definition add_to_payload ::
  "string \<Rightarrow> int \<Rightarrow> heap \<Rightarrow> ref \<Rightarrow> pyval \<Rightarrow> user_context \<Rightarrow> ref \<times> heap" where
  "add_to_payload k now h payload value user_context =
     (payload,
      h(payload := fmupd k (PDict (fmupd ''t'' (Prim (PInt now)) (fmupd ''v'' value fmempty)))
                     (h payload)))"

text \<open>\<^verbatim>\<open>payload[self.key] = None; return payload\<close>\<close>

definition remove_from_payload_by_merge ::
  "string \<Rightarrow> heap \<Rightarrow> ref \<Rightarrow> user_context \<Rightarrow> ref \<times> heap" where
  "remove_from_payload_by_merge k h payload user_context =
     (payload, h(payload := fmupd k (Prim PNone) (h payload)))"

text \<open>
  \<^verbatim>\<open>del payload[self.key]; return payload\<close>. \<^verbatim>\<open>del\<close> raises \<^verbatim>\<open>KeyError\<close> when
  the key is not in the dict, and then nothing is returned.
\<close>

definition remove_from_payload ::
  "string \<Rightarrow> heap \<Rightarrow> ref \<Rightarrow> user_context \<Rightarrow> (exn + ref) \<times> heap" where
  "remove_from_payload k h payload user_context =
     (if k |\<in>| fmdom (h payload)
      then (Inr payload, h(payload := fmdrop k (h payload)))
      else (Inl KeyError, h))"

text \<open>\<^verbatim>\<open>return payload.get(self.key, {}).get("v")\<close>\<close>

definition get_value_from_payload ::
  "string \<Rightarrow> json_object \<Rightarrow> user_context \<Rightarrow> exn + pyval" where
  "get_value_from_payload k payload user_context =
     py_get (dict_get payload k (PDict fmempty)) ''v''"

text \<open>\<^verbatim>\<open>return payload.get(self.key, {}).get("t")\<close>\<close>

definition get_last_refetch_time ::
  "string \<Rightarrow> json_object \<Rightarrow> user_context \<Rightarrow> exn + pyval" where
  "get_last_refetch_time k payload user_context =
     py_get (dict_get payload k (PDict fmempty)) ''t''"

section \<open>Claims and validators\<close>

text \<open>
  Modelled from the spec: the abstract \<^verbatim>\<open>SessionClaim\<close> of
  \<^verbatim>\<open>recipe/session/interfaces.py\<close>, which is not among the sources. A claim has a
  \<^verbatim>\<open>key\<close> and a \<^verbatim>\<open>get_value_from_payload\<close> of its own; \<open>SessionClaim\<close> stands for
  every claim kind other than \<^verbatim>\<open>PrimitiveClaim\<close>, with its reader as a field.
\<close>

datatype claim =
    PrimitiveClaim (key: string)
  | SessionClaim (key: string) (reader: "json_object \<Rightarrow> user_context \<Rightarrow> exn + pyval")

text \<open>\<^verbatim>\<open>self.claim.get_value_from_payload(payload, user_context)\<close>: dispatch on the claim.\<close>

fun claim_get_value_from_payload ::
  "claim \<Rightarrow> json_object \<Rightarrow> user_context \<Rightarrow> exn + pyval" where
  "claim_get_value_from_payload (PrimitiveClaim k) payload user_context =
     get_value_from_payload k payload user_context"
| "claim_get_value_from_payload (SessionClaim k r) payload user_context =
     r payload user_context"

text \<open>
  The two validator classes. \<^verbatim>\<open>__init__\<close> stores \<^verbatim>\<open>id_\<close>, \<^verbatim>\<open>claim\<close> and
  \<^verbatim>\<open>params\<close> and checks nothing. The \<^verbatim>\<open>params\<close> dict is read at the keys
  \<^verbatim>\<open>"val"\<close> and \<^verbatim>\<open>"max_age_in_sec"\<close> only, with the types the factory gives them
  (\<^verbatim>\<open>val: JSONPrimitive\<close>, \<^verbatim>\<open>max_age_in_sec: int\<close>), so these are fields.
\<close>

datatype validator =
    HasValueSCV (validator_id: string) (claim: claim) (val: json_primitive)
  | HasFreshValueSCV (validator_id: string) (claim: claim) (val: json_primitive)
      (max_age_in_sec: int)

text \<open>
  The dicts \<^verbatim>\<open>validate\<close> returns: \<^verbatim>\<open>{"isValid": True}\<close>, or
  \<^verbatim>\<open>{"isValid": False, "reason": {...}}\<close> where the reason holds \<^verbatim>\<open>message\<close> with
  either \<^verbatim>\<open>expectedValue\<close> and \<^verbatim>\<open>actualValue\<close>, or \<^verbatim>\<open>ageInSeconds\<close> and
  \<^verbatim>\<open>maxAgeInSeconds\<close>.

  \<^verbatim>\<open>ageInSeconds\<close> is the result of Python's true division of an int by 1000:
  the double nearest to the quotient. The model keeps the exact quotient, a rational.
  Against the integer \<^verbatim>\<open>max_age_in_sec\<close> the two compare alike as long as the
  difference of the timestamps stays below \<open>2^52\<close> milliseconds: there the double
  is off by less than half a millisecond, and the exact quotient is either at most
  \<^verbatim>\<open>max_age_in_sec\<close> or above it by a millisecond or more.
\<close>

datatype reason =
    ValueReason (message: string) (expectedValue: json_primitive) (actualValue: pyval)
  | AgeReason (message: string) (ageInSeconds: rat) (maxAgeInSeconds: int)

datatype validation_result = IsValid | NotValid reason


text \<open>
  \<^verbatim>\<open>validate\<close> of both classes (the result of awaiting the coroutine).

  \<^verbatim>\<open>HasFreshValueSCV\<close> reads the claim value and returns "value does not exist"
  when it is \<^verbatim>\<open>None\<close>; only then comes
  \<^verbatim>\<open>assert isinstance(self.claim, PrimitiveClaim)\<close>, then
  \<^verbatim>\<open>age_in_sec = (get_timestamp_ms() - (self.claim.get_last_refetch_time(...) or 0)) / 1000\<close>,
  the test \<^verbatim>\<open>age_in_sec > max_age_in_sec\<close>, and last \<^verbatim>\<open>claim_val != val\<close>.
\<close>

fun validate ::
  "validator \<Rightarrow> int \<Rightarrow> json_object \<Rightarrow> user_context \<Rightarrow> exn + validation_result" where
  "validate (HasValueSCV i c v) now payload user_context =
     (case claim_get_value_from_payload c payload user_context of
        Inl e \<Rightarrow> Inl e
      | Inr claim_val \<Rightarrow>
          if py_eq claim_val v then Inr IsValid
          else Inr (NotValid (ValueReason ''wrong value'' v claim_val)))"
| "validate (HasFreshValueSCV i c v m) now payload user_context =
     (case claim_get_value_from_payload c payload user_context of
        Inl e \<Rightarrow> Inl e
      | Inr claim_val \<Rightarrow>
          if claim_val = Prim PNone
          then Inr (NotValid (ValueReason ''value does not exist'' v claim_val))
          else (case c of
                  SessionClaim k r \<Rightarrow> Inl AssertionError
                | PrimitiveClaim k \<Rightarrow>
                    (case get_last_refetch_time k payload user_context of
                       Inl e \<Rightarrow> Inl e
                     | Inr t \<Rightarrow>
                         (case py_rsub now (py_or t (Prim (PInt 0))) of
                            Inl e \<Rightarrow> Inl e
                          | Inr d \<Rightarrow>
                              let age_in_sec = of_int d / 1000 in
                              if age_in_sec > of_int m
                              then Inr (NotValid (AgeReason ''expired'' age_in_sec m))
                              else if \<not> py_eq claim_val v
                              then Inr (NotValid (ValueReason ''wrong value'' v claim_val))
                              else Inr IsValid))))"

text \<open>
  \<^verbatim>\<open>PrimitiveClaimValidators\<close>; \<open>c\<close> is \<^verbatim>\<open>self.claim\<close>. \<^verbatim>\<open>id_ or default\<close>
  takes the default when \<^verbatim>\<open>id_\<close> is \<^verbatim>\<open>None\<close> and also when it is the empty
  string, which is false in Python.
\<close>

definition str_or :: "string option \<Rightarrow> string \<Rightarrow> string" where
  "str_or id_opt dflt =
     (case id_opt of None \<Rightarrow> dflt | Some s \<Rightarrow> if s = [] then dflt else s)"

definition has_value :: "claim \<Rightarrow> json_primitive \<Rightarrow> string option \<Rightarrow> validator" where
  "has_value c v id_opt = HasValueSCV (str_or id_opt (key c)) c v"

definition has_fresh_value ::
  "claim \<Rightarrow> json_primitive \<Rightarrow> int \<Rightarrow> string option \<Rightarrow> validator" where
  "has_fresh_value c v m id_opt =
     HasFreshValueSCV (str_or id_opt (key c @ ''-fresh-val'')) c v m"

text \<open>
  A store whose payload objects are all the empty dict \<^verbatim>\<open>{}\<close>, to build concrete
  payloads from.
\<close>

definition empty_heap :: heap where
  "empty_heap = (\<lambda>r. fmempty)"

section \<open>Reading the entry of a claim\<close>

lemma get_value_absent:
  "fmlookup payload k = None \<Longrightarrow> get_value_from_payload k payload ctx = Inr (Prim PNone)"
  by (simp add: get_value_from_payload_def dict_get_def)

lemma get_value_record:
  "fmlookup payload k = Some (PDict d) \<Longrightarrow>
   get_value_from_payload k payload ctx = Inr (dict_get d ''v'' (Prim PNone))"
  by (simp add: get_value_from_payload_def dict_get_def)

lemma get_last_refetch_time_record:
  "fmlookup payload k = Some (PDict d) \<Longrightarrow>
   get_last_refetch_time k payload ctx = Inr (dict_get d ''t'' (Prim PNone))"
  by (simp add: get_last_refetch_time_def dict_get_def)

text \<open>
  The accessors return exactly when the key is absent or holds a dict; on every
  other entry, the \<^verbatim>\<open>None\<close> that \<^verbatim>\<open>remove_from_payload_by_merge_\<close> writes
  included, \<^verbatim>\<open>.get\<close> raises.
\<close>

lemma get_value_returns_iff:
  "(\<exists>x. get_value_from_payload k payload ctx = Inr x) \<longleftrightarrow>
   (fmlookup payload k = None \<or> (\<exists>d. fmlookup payload k = Some (PDict d)))"
proof (cases "fmlookup payload k")
  case None
  then show ?thesis by (simp add: get_value_absent)
next
  case (Some e)
  then show ?thesis
    by (cases e) (simp_all add: get_value_from_payload_def dict_get_def)
qed

text \<open>Python's \<^verbatim>\<open>==\<close> against strict equality: the two differ on a bool and its number.\<close>

lemma py_eq_iff:
  "py_eq cv v \<longleftrightarrow>
     cv = Prim v
     \<or> (\<exists>b. cv = Prim (PBool b) \<and> v = PInt (int_of_bool b))
     \<or> (\<exists>b. cv = Prim (PInt (int_of_bool b)) \<and> v = PBool b)"
proof (cases cv)
  case (Prim a)
  then show ?thesis by (cases a; cases v) auto
qed simp_all

text \<open>The age test, on integers.\<close>

lemma age_gt_iff: "(of_int m :: rat) < of_int a / 1000 \<longleftrightarrow> m * 1000 < a"
proof -
  have "(of_int m :: rat) < of_int a / 1000 \<longleftrightarrow> (of_int m :: rat) * 1000 < of_int a"
    by (simp add: pos_less_divide_eq)
  also have "\<dots> \<longleftrightarrow> (of_int (m * 1000) :: rat) < of_int a" by simp
  also have "\<dots> \<longleftrightarrow> m * 1000 < a" by (rule of_int_less_iff)
  finally show ?thesis .
qed


lemma py_rsub_or_none: "py_rsub now (py_or (Prim PNone) (Prim (PInt 0))) = Inr now"
  by (simp add: py_or_def)

section \<open>Removing by merge, then reading\<close>

text \<open>
  C1. The claim: after \<^verbatim>\<open>remove_from_payload_by_merge_(payload, ctx)\<close>,
  \<^verbatim>\<open>get_value_from_payload(payload, ctx)\<close> returns null without raising, and the key
  is still in the payload, mapped to null.

  The second half holds. The first does not: the key is now present, so
  \<^verbatim>\<open>payload.get(self.key, {})\<close> yields the stored \<^verbatim>\<open>None\<close> and not the default
  \<^verbatim>\<open>{}\<close>, and \<^verbatim>\<open>None.get("v")\<close> raises \<^verbatim>\<open>AttributeError\<close>. This is what the code
  does for every store, payload object, key and contexts.
\<close>

theorem remove_by_merge_then_get_value_raises:
  "get_value_from_payload k (snd (remove_from_payload_by_merge k h p ctx) p) ctx'
     = Inl AttributeError
   \<and> fmlookup (snd (remove_from_payload_by_merge k h p ctx) p) k = Some (Prim PNone)
   \<and> fst (remove_from_payload_by_merge k h p ctx) = p"
  by (simp add: remove_from_payload_by_merge_def get_value_from_payload_def dict_get_def)

section \<open>HasValueSCV.validate\<close>

text \<open>
  C2, as amended. Whenever the claim's value can be read from the payload,
  \<^verbatim>\<open>HasValueSCV.validate\<close> returns \<^verbatim>\<open>{"isValid": True}\<close> iff that value equals
  \<^verbatim>\<open>val\<close> under Python's \<^verbatim>\<open>==\<close>; otherwise it returns \<^verbatim>\<open>isValid: False\<close> with
  the message "wrong value" and both \<^verbatim>\<open>expectedValue\<close> and \<^verbatim>\<open>actualValue\<close>.
  Python's \<^verbatim>\<open>==\<close> is strict equality (same kind, same value) except that a
  boolean equals the number 1 or 0 it stands for; a string never equals a number.
\<close>

theorem has_value_validate:
  assumes "claim_get_value_from_payload c payload ctx = Inr cv"
  shows "(validate (HasValueSCV i c v) now payload ctx = Inr IsValid \<longleftrightarrow> py_eq cv v)
    \<and> (\<not> py_eq cv v \<longrightarrow>
         validate (HasValueSCV i c v) now payload ctx
           = Inr (NotValid (ValueReason ''wrong value'' v cv)))
    \<and> (py_eq cv v \<longleftrightarrow>
         cv = Prim v
         \<or> (\<exists>b. cv = Prim (PBool b) \<and> v = PInt (int_of_bool b))
         \<or> (\<exists>b. cv = Prim (PInt (int_of_bool b)) \<and> v = PBool b))"
  using assms py_eq_iff [of cv v] by simp

text \<open>
  The spec's two examples: stored 5 against expected 5 is valid, stored 5 against
  expected \<^verbatim>\<open>"5"\<close> is a wrong value.
\<close>

theorem has_value_validate_witness:
  "validate (has_value (PrimitiveClaim ''k'') (PInt 5) None) 0
     (snd (add_to_payload ''k'' 0 empty_heap 0 (Prim (PInt 5)) None) 0) None = Inr IsValid
   \<and> validate (has_value (PrimitiveClaim ''k'') (PStr ''5'') None) 0
     (snd (add_to_payload ''k'' 0 empty_heap 0 (Prim (PInt 5)) None) 0) None
     = Inr (NotValid (ValueReason ''wrong value'' (PStr ''5'') (Prim (PInt 5))))"
  using
    has_value_validate [of "PrimitiveClaim ''k''"
      "snd (add_to_payload ''k'' 0 empty_heap 0 (Prim (PInt 5)) None) 0" None
      "Prim (PInt 5)" "''k''" "PInt 5" 0]
    has_value_validate [of "PrimitiveClaim ''k''"
      "snd (add_to_payload ''k'' 0 empty_heap 0 (Prim (PInt 5)) None) 0" None
      "Prim (PInt 5)" "''k''" "PStr ''5''" 0]
  by (simp add: has_value_def str_or_def add_to_payload_def empty_heap_def
      get_value_from_payload_def dict_get_def)

text \<open>
  Where the claim as first stated fails: the payload stores the boolean
  \<^verbatim>\<open>True\<close>, the validator expects the number 1, and the verdict is valid although
  the two values are of different types.
\<close>

theorem has_value_true_equals_one:
  "validate (has_value (PrimitiveClaim ''k'') (PInt 1) None) 0
     (snd (add_to_payload ''k'' 0 empty_heap 0 (Prim (PBool True)) None) 0) None = Inr IsValid
   \<and> Prim (PBool True) \<noteq> Prim (PInt 1)"
  by (simp add: has_value_def str_or_def add_to_payload_def empty_heap_def
      get_value_from_payload_def dict_get_def int_of_bool_def)

section \<open>HasFreshValueSCV.validate\<close>



section \<open>HasFreshValueSCV.should_refetch\<close>



section \<open>A fresh-value validator on a claim that is not a PrimitiveClaim\<close>

text \<open>
  C5, as amended. Binding a \<^verbatim>\<open>HasFreshValueSCV\<close> to a claim that is not a
  \<^verbatim>\<open>PrimitiveClaim\<close> is not rejected when the validator is built: the only check
  is the \<^verbatim>\<open>assert isinstance(self.claim, PrimitiveClaim)\<close> inside \<^verbatim>\<open>validate\<close>,
  after the absence check. On such a validator \<^verbatim>\<open>validate\<close> returns the failure
  "value does not exist" when the claim's value is \<^verbatim>\<open>None\<close>, raises
  \<^verbatim>\<open>AssertionError\<close> when the claim has any other value (before age or equality
  are looked at), and passes on what the claim's own reader raises.
\<close>

theorem fresh_validator_on_other_claim:
  "(r payload ctx = Inr (Prim PNone) \<longrightarrow>
      validate (has_fresh_value (SessionClaim k r) v m id_opt) now payload ctx
        = Inr (NotValid (ValueReason ''value does not exist'' v (Prim PNone))))
   \<and> (r payload ctx = Inr cv \<and> cv \<noteq> Prim PNone \<longrightarrow>
      validate (has_fresh_value (SessionClaim k r) v m id_opt) now payload ctx
        = Inl AssertionError)
   \<and> (r payload ctx = Inl e \<longrightarrow>
      validate (has_fresh_value (SessionClaim k r) v m id_opt) now payload ctx = Inl e)"
  by (simp add: has_fresh_value_def)

text \<open>
  A claim of another kind that reads its value the way a \<^verbatim>\<open>PrimitiveClaim\<close> does,
  on three payloads: empty, holding the value 1, and holding \<^verbatim>\<open>None\<close> under the
  key.
\<close>

theorem fresh_validator_on_other_claim_witness:
  "validate (has_fresh_value (SessionClaim ''k'' (get_value_from_payload ''k'')) (PInt 1) 60 None)
     0 fmempty None
     = Inr (NotValid (ValueReason ''value does not exist'' (PInt 1) (Prim PNone)))
   \<and> validate (has_fresh_value (SessionClaim ''k'' (get_value_from_payload ''k'')) (PInt 1) 60 None)
     0 (snd (add_to_payload ''k'' 0 empty_heap 0 (Prim (PInt 1)) None) 0) None
     = Inl AssertionError
   \<and> validate (has_fresh_value (SessionClaim ''k'' (get_value_from_payload ''k'')) (PInt 1) 60 None)
     0 (snd (remove_from_payload_by_merge ''k'' empty_heap 0 None) 0) None
     = Inl AttributeError"
  using
    fresh_validator_on_other_claim [of "get_value_from_payload ''k''" fmempty None
      "''k''" "PInt 1" 60 None 0]
    fresh_validator_on_other_claim [of "get_value_from_payload ''k''"
      "snd (add_to_payload ''k'' 0 empty_heap 0 (Prim (PInt 1)) None) 0" None
      "''k''" "PInt 1" 60 None 0 "Prim (PInt 1)"]
    fresh_validator_on_other_claim [of "get_value_from_payload ''k''"
      "snd (remove_from_payload_by_merge ''k'' empty_heap 0 None) 0" None
      "''k''" "PInt 1" 60 None 0 "Prim PNone" AttributeError]
  by (simp add: add_to_payload_def remove_from_payload_by_merge_def empty_heap_def
      get_value_from_payload_def dict_get_def)

text \<open>
  Where the claim as first stated fails: the validator is built on a claim that is
  not a \<^verbatim>\<open>PrimitiveClaim\<close>, and on the empty payload \<^verbatim>\<open>validate\<close> produces a
  validation result, with no error at any point.
\<close>

theorem fresh_validator_on_other_claim_returns:
  "validate (has_fresh_value (SessionClaim ''k'' (get_value_from_payload ''k'')) (PInt 1) 60 None)
     0 fmempty None
     = Inr (NotValid (ValueReason ''value does not exist'' (PInt 1) (Prim PNone)))"
  by (simp add: has_fresh_value_def get_value_from_payload_def dict_get_def)

section \<open>Adding, then reading\<close>

text \<open>
  C6. After \<^verbatim>\<open>add_to_payload_(p, x, ctx)\<close> the payload object \<open>p\<close> (the same
  reference, read in the store the call leaves) yields exactly \<open>x\<close> from
  \<^verbatim>\<open>get_value_from_payload\<close>, and \<^verbatim>\<open>get_last_refetch_time\<close> yields the clock reading
  \<open>now\<close> that the add call took; neither read raises. This holds for every
  store, payload, value and pair of contexts.
\<close>

theorem add_then_read:
  "get_value_from_payload k (snd (add_to_payload k now h p x ctx) p) ctx' = Inr x
   \<and> get_last_refetch_time k (snd (add_to_payload k now h p x ctx) p) ctx'
       = Inr (Prim (PInt now))
   \<and> fst (add_to_payload k now h p x ctx) = p"
  by (simp add: add_to_payload_def get_value_from_payload_def get_last_refetch_time_def
      dict_get_def)

section \<open>HasValueSCV.should_refetch\<close>



section \<open>The identifiers the factory gives\<close>

text \<open>
  C8, as amended. With no \<^verbatim>\<open>id_\<close>, \<^verbatim>\<open>has_value\<close> gives the validator the claim's
  key as its id and \<^verbatim>\<open>has_fresh_value\<close> gives it the key followed by
  \<^verbatim>\<open>"-fresh-val"\<close>. A supplied id that is not the empty string overrides the default
  in both; the empty string is taken as no id and leaves the default.
\<close>

theorem validator_ids:
  "validator_id (has_value c v None) = key c
   \<and> validator_id (has_fresh_value c v m None) = key c @ ''-fresh-val''
   \<and> (s \<noteq> [] \<longrightarrow> validator_id (has_value c v (Some s)) = s
                 \<and> validator_id (has_fresh_value c v m (Some s)) = s)
   \<and> validator_id (has_value c v (Some [])) = key c
   \<and> validator_id (has_fresh_value c v m (Some [])) = key c @ ''-fresh-val''"
  by (simp add: has_value_def has_fresh_value_def str_or_def)

theorem validator_ids_witness:
  "validator_id (has_value (PrimitiveClaim ''k'') (PInt 1) (Some ''mine'')) = ''mine''
   \<and> validator_id (has_fresh_value (PrimitiveClaim ''k'') (PInt 1) 60 (Some ''mine'')) = ''mine''
   \<and> validator_id (has_fresh_value (PrimitiveClaim ''k'') (PInt 1) 60 None) = ''k-fresh-val''"
  using validator_ids [of "PrimitiveClaim ''k''" "PInt 1" 60 "''mine''"]
  by simp

text \<open>
  Where the claim as first stated fails: the empty string is supplied as the id, and
  both validators get their default ids.
\<close>

theorem empty_id_takes_default:
  "validator_id (has_value (PrimitiveClaim ''k'') (PInt 1) (Some [])) = ''k''
   \<and> validator_id (has_fresh_value (PrimitiveClaim ''k'') (PInt 1) 60 (Some []))
       = ''k-fresh-val''"
  by (simp add: has_value_def has_fresh_value_def str_or_def)

section \<open>What the payload operations leave alone\<close>

text \<open>
  C9, as amended. For every key \<open>k'\<close> other than the claim's key,
  \<^verbatim>\<open>add_to_payload_\<close> and \<^verbatim>\<open>remove_from_payload_by_merge_\<close> leave the payload's entry
  at \<open>k'\<close> as it was and return the payload object they were given, changed in
  place. So does \<^verbatim>\<open>remove_from_payload\<close> when the claim's key is in the payload; when
  it is not, \<^verbatim>\<open>remove_from_payload\<close> raises \<^verbatim>\<open>KeyError\<close>, returns nothing and
  changes nothing.
\<close>

theorem payload_frame:
  assumes "k' \<noteq> k"
  shows "fst (add_to_payload k now h p x ctx) = p
    \<and> fmlookup (snd (add_to_payload k now h p x ctx) p) k' = fmlookup (h p) k'
    \<and> fst (remove_from_payload_by_merge k h p ctx) = p
    \<and> fmlookup (snd (remove_from_payload_by_merge k h p ctx) p) k' = fmlookup (h p) k'
    \<and> (k |\<in>| fmdom (h p) \<longrightarrow>
          fst (remove_from_payload k h p ctx) = Inr p
          \<and> fmlookup (snd (remove_from_payload k h p ctx) p) k' = fmlookup (h p) k')
    \<and> (k |\<notin>| fmdom (h p) \<longrightarrow> remove_from_payload k h p ctx = (Inl KeyError, h))"
  using assms
  by (simp add: add_to_payload_def remove_from_payload_by_merge_def remove_from_payload_def)

text \<open>
  A payload given the claims \<^verbatim>\<open>"j"\<close> and \<^verbatim>\<open>"k"\<close>: removing \<^verbatim>\<open>"k"\<close> returns the
  same object and keeps the record of \<^verbatim>\<open>"j"\<close>. Removing \<^verbatim>\<open>"k"\<close> before it
  was added raises.
\<close>

theorem payload_frame_witness:
  "fmlookup (snd (remove_from_payload ''k''
       (snd (add_to_payload ''k'' 7 (snd (add_to_payload ''j'' 3 empty_heap 0 (Prim (PInt 1)) None)) 0
          (Prim (PInt 2)) None)) 0 None) 0) ''j''
     = Some (PDict (fmupd ''t'' (Prim (PInt 3)) (fmupd ''v'' (Prim (PInt 1)) fmempty)))
   \<and> fst (remove_from_payload ''k''
       (snd (add_to_payload ''k'' 7 (snd (add_to_payload ''j'' 3 empty_heap 0 (Prim (PInt 1)) None)) 0
          (Prim (PInt 2)) None)) 0 None) = Inr 0
   \<and> fst (remove_from_payload ''k''
       (snd (add_to_payload ''j'' 3 empty_heap 0 (Prim (PInt 1)) None)) 0 None) = Inl KeyError"
  using
    payload_frame [of "''j''" "''k''" 7
      "snd (add_to_payload ''j'' 3 empty_heap 0 (Prim (PInt 1)) None)" 0 "Prim (PInt 2)" None]
    payload_frame [of "''j''" "''k''" 7
      "snd (add_to_payload ''k'' 7 (snd (add_to_payload ''j'' 3 empty_heap 0 (Prim (PInt 1)) None)) 0
          (Prim (PInt 2)) None)" 0 "Prim (PInt 2)" None]
  by (simp add: add_to_payload_def empty_heap_def)

text \<open>
  Where the claim as first stated fails: \<^verbatim>\<open>remove_from_payload\<close> on a payload
  without the claim's key returns no payload.
\<close>

theorem remove_absent_key_raises:
  "remove_from_payload ''k'' empty_heap 0 None = (Inl KeyError, empty_heap)"
  by (simp add: remove_from_payload_def empty_heap_def)

section \<open>A record without its refetch time\<close>

text \<open>
  C10. When the entry under the claim's key is a record whose \<^verbatim>\<open>v\<close> is there and
  not \<^verbatim>\<open>None\<close> and whose \<^verbatim>\<open>t\<close> is missing or \<^verbatim>\<open>None\<close>,
  \<^verbatim>\<open>HasFreshValueSCV.validate\<close> does not raise: it takes 0 for the last refetch
  time, so the age is \<^verbatim>\<open>now / 1000\<close>, and whenever
  \<^verbatim>\<open>now > max_age_in_sec * 1000\<close> the result is the failure "expired" with that
  age.
\<close>

theorem validate_without_refetch_time:
  assumes "fmlookup payload k = Some (PDict d)"
    and "fmlookup d ''v'' = Some cv" and "cv \<noteq> Prim PNone"
    and "fmlookup d ''t'' = None \<or> fmlookup d ''t'' = Some (Prim PNone)"
  shows "validate (HasFreshValueSCV i (PrimitiveClaim k) v m) now payload ctx
           = Inr (if (of_int now :: rat) / 1000 > of_int m
                  then NotValid (AgeReason ''expired'' (of_int now / 1000) m)
                  else if \<not> py_eq cv v
                  then NotValid (ValueReason ''wrong value'' v cv)
                  else IsValid)
         \<and> (now > m * 1000 \<longrightarrow>
              validate (HasFreshValueSCV i (PrimitiveClaim k) v m) now payload ctx
                = Inr (NotValid (AgeReason ''expired'' (of_int now / 1000) m)))"
proof -
  have gv: "get_value_from_payload k payload ctx = Inr cv"
    using assms(1,2) by (simp add: get_value_record dict_get_def)
  have lt: "get_last_refetch_time k payload ctx = Inr (Prim PNone)"
    using assms(1,4) by (auto simp: get_last_refetch_time_record dict_get_def)
  show ?thesis
    using assms(3) by (simp add: gv lt py_rsub_or_none Let_def age_gt_iff)
qed

text \<open>
  At the clock reading 200000 ms with \<^verbatim>\<open>max_age_in_sec = 100\<close>: a record with no
  \<^verbatim>\<open>t\<close>, and one whose \<^verbatim>\<open>t\<close> is \<^verbatim>\<open>None\<close>.
\<close>

theorem validate_without_refetch_time_witness:
  "validate (has_fresh_value (PrimitiveClaim ''k'') (PInt 5) 100 None) 200000
     (fmupd ''k'' (PDict (fmupd ''v'' (Prim (PInt 5)) fmempty)) fmempty) None
     = Inr (NotValid (AgeReason ''expired'' 200 100))
   \<and> validate (has_fresh_value (PrimitiveClaim ''k'') (PInt 5) 100 None) 200000
     (fmupd ''k'' (PDict (fmupd ''t'' (Prim PNone) (fmupd ''v'' (Prim (PInt 5)) fmempty)))
        fmempty) None
     = Inr (NotValid (AgeReason ''expired'' 200 100))"
  using
    validate_without_refetch_time [where k = "''k''" and i = "''k-fresh-val''"
      and v = "PInt 5" and m = 100 and now = 200000 and ctx = None and cv = "Prim (PInt 5)"
      and payload = "fmupd ''k'' (PDict (fmupd ''v'' (Prim (PInt 5)) fmempty)) fmempty"
      and d = "fmupd ''v'' (Prim (PInt 5)) fmempty"]
    validate_without_refetch_time [where k = "''k''" and i = "''k-fresh-val''"
      and v = "PInt 5" and m = 100 and now = 200000 and ctx = None and cv = "Prim (PInt 5)"
      and payload = "fmupd ''k'' (PDict (fmupd ''t'' (Prim PNone)
                       (fmupd ''v'' (Prim (PInt 5)) fmempty))) fmempty"
      and d = "fmupd ''t'' (Prim PNone) (fmupd ''v'' (Prim (PInt 5)) fmempty)"]
  by (simp add: has_fresh_value_def str_or_def)

end
